theory Spec2Isabelle
  imports Main "HOL-Library.Multiset"
begin

section \<open>EzWallet: the controllers of users and groups (controllers/users.js)\<close>

subsection \<open>JavaScript values and the stored documents\<close>

text \<open>
  The scalar values the controllers handle are strings and \<^verbatim>\<open>undefined\<close>: a field of
  the request that is absent reads as \<^verbatim>\<open>undefined\<close>, and so does the result of an arrow
  function whose body is a block without \<^verbatim>\<open>return\<close>.
\<close>

datatype jsval = JUndefined | JString string

text \<open>
  The documents of the three collections. \<open>models/User.js\<close> and \<open>models/model.js\<close> are
  not part of the sources at hand; the fields are the ones the controllers read and write
  (\<open>username\<close>, \<open>email\<close>, \<open>role\<close>, \<open>refreshToken\<close>; \<open>name\<close>, \<open>members\<close> with \<open>email\<close>
  and \<open>user\<close>; \<open>username\<close> of a transaction, whose \<open>type\<close> and \<open>amount\<close> stand for
  the rest of the document and are never read). A member's \<open>email\<close> is a \<open>jsval\<close>
  because the controllers build it from \<^verbatim>\<open>e.email\<close>.
\<close>

record user =
  username :: string
  email :: string
  role :: string
  refreshToken :: "string option"

record member =
  member_email :: jsval
  member_user :: "user option"

record group =
  name :: string
  members :: "member list"

record transaction =
  tx_username :: string
  tx_type :: string
  tx_amount :: int

record db =
  users :: "user list"
  groups :: "group list"
  transactions :: "transaction list"

subsection \<open>The persistence layer\<close>

text \<open>
  Modelled from the spec: the models \<open>User\<close>, \<open>Group\<close> and \<open>transactions\<close> (Mongoose
  models of \<open>models/User.js\<close> and \<open>models/model.js\<close>) are missing from the sources. The
  spec gives them as a black box: query-by-filter returning exactly one record or none,
  delete-many-by-filter reporting the deleted count, update-by-filter pushing to or pulling
  from \<open>members\<close>. \<open>findOne\<close> returns the first document matching the filter, in
  collection order, or \<^verbatim>\<open>null\<close> (\<open>None\<close>). A filter value \<^verbatim>\<open>undefined\<close> matches only a
  document whose field is absent or \<^verbatim>\<open>null\<close>; users and groups always carry \<open>email\<close> and
  \<open>name\<close>, and a user's \<open>refreshToken\<close> may be \<^verbatim>\<open>null\<close>.
\<close>

definition User_findOne_email :: "db \<Rightarrow> jsval \<Rightarrow> user option" where
  "User_findOne_email d v =
     (case v of
        JUndefined \<Rightarrow> None
      | JString e \<Rightarrow> find (\<lambda>u. email u = e) (users d))"

definition User_findOne_refreshToken :: "db \<Rightarrow> jsval \<Rightarrow> user option" where
  "User_findOne_refreshToken d v =
     (case v of
        JUndefined \<Rightarrow> find (\<lambda>u. refreshToken u = None) (users d)
      | JString t \<Rightarrow> find (\<lambda>u. refreshToken u = Some t) (users d))"

definition Group_findOne_name :: "db \<Rightarrow> jsval \<Rightarrow> group option" where
  "Group_findOne_name d v =
     (case v of
        JUndefined \<Rightarrow> None
      | JString n \<Rightarrow> find (\<lambda>g. name g = n) (groups d))"

text \<open>\<^verbatim>\<open>Group.findOne({ 'members.email': e })\<close>: some element of \<open>members\<close> has that email.\<close>

definition has_member :: "string \<Rightarrow> group \<Rightarrow> bool" where
  "has_member e g = (JString e \<in> set (map member_email (members g)))"

definition Group_findOne_member :: "db \<Rightarrow> string \<Rightarrow> group option" where
  "Group_findOne_member d e = find (has_member e) (groups d)"

text \<open>\<^verbatim>\<open>Group.findOne({ name: groupName, 'members.email': e })\<close>.\<close>

definition Group_findOne_name_member :: "db \<Rightarrow> string \<Rightarrow> string \<Rightarrow> group option" where
  "Group_findOne_name_member d n e = find (\<lambda>g. name g = n \<and> has_member e g) (groups d)"

subsection \<open>asyncFilter\<close>

text \<open>
  Modelled from the spec: \<open>asyncFilter\<close> of \<open>controllers/utils.js\<close> is missing from the
  sources. It awaits the predicate on every element of the array and keeps the elements
  whose result is truthy. The predicates of \<open>checkGroupEmails\<close> push to an array of the
  enclosing scope; the array is the state \<open>acc\<close> that the predicate receives and returns.
  The predicates are run here in the order of the array. (The spec leaves the order within
  each output free.)
\<close>

fun asyncFilter :: "('a \<Rightarrow> 's \<Rightarrow> bool \<times> 's) \<Rightarrow> 'a list \<Rightarrow> 's \<Rightarrow> 'a list \<times> 's" where
  "asyncFilter p [] acc = ([], acc)"
| "asyncFilter p (x # xs) acc =
     (case p x acc of
        (keep, acc1) \<Rightarrow>
          (case asyncFilter p xs acc1 of
             (ys, acc2) \<Rightarrow> (if keep then x # ys else ys, acc2)))"

subsection \<open>checkGroupEmails\<close>

text \<open>
  Lines 435 to 460: the three arrays and the two filter passes. \<open>filterEmails\<close> returns
  \<open>memberEmails\<close> as the passes leave it, and the three arrays the predicates pushed to.
\<close>

record email_lists =
  l_memberEmails :: "string list"
  l_alreadyInGroup :: "string list"
  l_membersNotFound :: "string list"
  l_notInGroup :: "string list"

definition filterEmails :: "db \<Rightarrow> string list \<Rightarrow> jsval \<Rightarrow> email_lists" where
  "filterEmails d memberEmails groupName =
     (case asyncFilter
             (\<lambda>e membersNotFound.
                (case User_findOne_email d (JString e) of
                   None \<Rightarrow> (False, membersNotFound @ [e])
                 | Some result \<Rightarrow> (True, membersNotFound)))
             memberEmails [] of
        (memberEmails1, membersNotFound) \<Rightarrow>
          (case groupName of
             JUndefined \<Rightarrow>
               (case asyncFilter
                       (\<lambda>e alreadyInGroup.
                          (case Group_findOne_member d e of
                             Some result \<Rightarrow> (False, alreadyInGroup @ [e])
                           | None \<Rightarrow> (True, alreadyInGroup)))
                       memberEmails1 [] of
                  (memberEmails2, alreadyInGroup) \<Rightarrow>
                    \<lparr>l_memberEmails = memberEmails2, l_alreadyInGroup = alreadyInGroup,
                     l_membersNotFound = membersNotFound, l_notInGroup = []\<rparr>)
           | JString n \<Rightarrow>
               (case asyncFilter
                       (\<lambda>e notInGroup.
                          (case Group_findOne_name_member d n e of
                             None \<Rightarrow> (False, notInGroup @ [e])
                           | Some result \<Rightarrow> (True, notInGroup)))
                       memberEmails1 [] of
                  (memberEmails2, notInGroup) \<Rightarrow>
                    \<lparr>l_memberEmails = memberEmails2, l_alreadyInGroup = [],
                     l_membersNotFound = membersNotFound, l_notInGroup = notInGroup\<rparr>)))"

text \<open>
  Lines 462 to 475: the returned object. Each of the four callbacks is
  \<^verbatim>\<open>(email) => { email; }\<close>, a block body with no \<^verbatim>\<open>return\<close>, so each maps every
  element to \<^verbatim>\<open>undefined\<close>.
\<close>

record classification =
  validEmails :: "jsval list"
  alreadyInGroup :: "jsval list"
  membersNotFound :: "jsval list"
  notInGroup :: "jsval list"

definition checkGroupEmails :: "db \<Rightarrow> string list \<Rightarrow> jsval \<Rightarrow> classification" where
  "checkGroupEmails d memberEmails groupName =
     (let l = filterEmails d memberEmails groupName in
      \<lparr>validEmails = map (\<lambda>email. JUndefined) (l_memberEmails l),
       alreadyInGroup = map (\<lambda>email. JUndefined) (l_alreadyInGroup l),
       membersNotFound = map (\<lambda>email. JUndefined) (l_membersNotFound l),
       notInGroup = map (\<lambda>email. JUndefined) (l_notInGroup l)\<rparr>)"

subsection \<open>Requests, responses and the helpers of utils.js\<close>

text \<open>
  The request fields the controllers read. A scalar field that is absent is
  \<open>JUndefined\<close>; \<open>body.memberEmails\<close> is an array of strings or absent.
\<close>

record request =
  body_name :: jsval
  body_memberEmails :: "string list option"
  body_email :: jsval
  params_name :: jsval
  params_username :: jsval
  path :: string
  cookies_accessToken :: jsval
  cookies_refreshToken :: jsval

text \<open>
  The part of \<open>res\<close> that survives a call: \<open>res.locals.refreshedTokenMessage\<close>, which
  the authorization helpers may set and the success bodies echo.
\<close>

record res =
  locals_refreshedTokenMessage :: jsval

record auth_result =
  authorized :: bool
  cause :: string

text \<open>
  \<open>controllers/utils.js\<close> is missing from the sources, so its exports are parameters of
  every controller: \<open>verifyAuth(req, res, { authType })\<close> and
  \<open>verifyMultipleAuth(req, res, { authType: [...] })\<close> return \<open>{ authorized, cause }\<close> and
  may write to \<open>res\<close>; \<open>isEmail\<close> is the syntactic check of an email string. The schema
  of \<open>transactions\<close> is missing too: \<open>tx_matches_email\<close> says which transactions the
  store takes the filter \<^verbatim>\<open>{ email: email }\<close> to match.
\<close>

record env =
  verifyAuth :: "request \<Rightarrow> res \<Rightarrow> string \<Rightarrow> auth_result \<times> res"
  verifyMultipleAuth :: "request \<Rightarrow> res \<Rightarrow> string list \<Rightarrow> auth_result \<times> res"
  isEmail :: "string \<Rightarrow> bool"
  tx_matches_email :: "string \<Rightarrow> transaction \<Rightarrow> bool"

text \<open>
  The JSON bodies the controllers send. \<open>JsonError s\<close> is \<^verbatim>\<open>{ error: s }\<close>,
  \<open>JsonMessage s\<close> is \<^verbatim>\<open>{ message: s }\<close>, \<open>JsonText s\<close> is the bare string \<open>s\<close>;
  \<open>UserData username email role msg\<close> is
  \<^verbatim>\<open>{ data: { username, email, role }, refreshedTokenMessage }\<close>;
  \<open>GroupData name members alreadyInGroup membersNotFound msg\<close> is
  \<^verbatim>\<open>{ data: { group: { name, members }, alreadyInGroup, membersNotFound }, refreshedTokenMessage }\<close>;
  \<open>RemovedData name members notInGroup membersNotFound\<close> is
  \<^verbatim>\<open>{ group: { name, members }, notInGroup, membersNotFound }\<close>;
  \<open>DeletedUser n b msg\<close> is
  \<^verbatim>\<open>{ deletedTransactionsNumber, isRemovedFromGroup, refreshedTokenMessage }\<close>.
\<close>

datatype body =
    JsonError string
  | JsonMessage string
  | JsonText string
  | UserData string string string jsval
  | GroupData jsval "jsval list" "jsval list" "jsval list" jsval
  | RemovedData jsval "jsval list" "jsval list" "jsval list"
  | DeletedUser nat bool jsval

text \<open>A controller returns the response it sends, if it sends one, and the storage it leaves.\<close>

record response =
  status :: nat
  body :: body

type_synonym outcome = "response option \<times> db"

definition send :: "nat \<Rightarrow> body \<Rightarrow> db \<Rightarrow> outcome" where
  "send s b d = (Some \<lparr>status = s, body = b\<rparr>, d)"

text \<open>Exceptions: the \<open>catch\<close> of every controller answers 500 with the error's message.\<close>

datatype exn = TypeError string

fun message :: "exn \<Rightarrow> string" where
  "message (TypeError m) = m"

text \<open>\<^verbatim>\<open>req.path.split('/').slice(-1)[0]\<close>: the last of the segments between slashes.\<close>

fun split_slash :: "string \<Rightarrow> string list" where
  "split_slash [] = [[]]"
| "split_slash (c # cs) =
     (if c = CHR ''/'' then [] # split_slash cs
      else (case split_slash cs of
              [] \<Rightarrow> [[c]]
            | s # ss \<Rightarrow> (c # s) # ss))"

definition routeIntent :: "request \<Rightarrow> string" where
  "routeIntent req = last (split_slash (path req))"

subsection \<open>Building the members\<close>

text \<open>
  \<^verbatim>\<open>validEmails.map(async (e) => { return { email: e.email, user: await User.findOne({ email: e.email }) }; })\<close>
  under \<open>Promise.all\<close>. Reading \<open>.email\<close> of \<^verbatim>\<open>undefined\<close> throws a TypeError (the
  message is the one of V8); of a string, it is \<^verbatim>\<open>undefined\<close>. \<open>Promise.all\<close> rejects
  with the first rejection.
\<close>

definition get_email :: "jsval \<Rightarrow> exn + jsval" where
  "get_email e =
     (case e of
        JUndefined \<Rightarrow> Inl (TypeError ''Cannot read properties of undefined (reading 'email')'')
      | JString s \<Rightarrow> Inr JUndefined)"

definition resolveMember :: "db \<Rightarrow> jsval \<Rightarrow> exn + member" where
  "resolveMember d e =
     (case get_email e of
        Inl err \<Rightarrow> Inl err
      | Inr v \<Rightarrow> Inr \<lparr>member_email = v, member_user = User_findOne_email d v\<rparr>)"

fun resolveMembers :: "db \<Rightarrow> jsval list \<Rightarrow> exn + member list" where
  "resolveMembers d [] = Inr []"
| "resolveMembers d (e # es) =
     (case resolveMember d e of
        Inl err \<Rightarrow> Inl err
      | Inr m \<Rightarrow>
          (case resolveMembers d es of
             Inl err \<Rightarrow> Inl err
           | Inr ms \<Rightarrow> Inr (m # ms)))"

subsection \<open>Writes to the collections\<close>

text \<open>
  Modelled from the spec, as the reads above: insert, update-by-filter that pushes to or
  pulls from \<open>members\<close> of the first matching group, delete-many-by-filter.
\<close>

definition Group_save :: "group \<Rightarrow> db \<Rightarrow> db" where
  "Group_save g d = d\<lparr>groups := groups d @ [g]\<rparr>"

fun update_first :: "('a \<Rightarrow> bool) \<Rightarrow> ('a \<Rightarrow> 'a) \<Rightarrow> 'a list \<Rightarrow> 'a list" where
  "update_first P f [] = []"
| "update_first P f (x # xs) = (if P x then f x # xs else x # update_first P f xs)"

definition name_is :: "jsval \<Rightarrow> group \<Rightarrow> bool" where
  "name_is v g = (case v of JUndefined \<Rightarrow> False | JString n \<Rightarrow> name g = n)"

text \<open>\<^verbatim>\<open>Group.updateOne({ name }, { $push: { members: { $each: membersToAdd } } })\<close>\<close>

definition Group_updateOne_push :: "jsval \<Rightarrow> member list \<Rightarrow> db \<Rightarrow> db" where
  "Group_updateOne_push v ms d =
     d\<lparr>groups := update_first (name_is v) (\<lambda>g. g\<lparr>members := members g @ ms\<rparr>) (groups d)\<rparr>"

text \<open>
  \<^verbatim>\<open>Group.updateOne({ name }, { $pull: { members: { $or: membersToRemove } } })\<close>: a member
  goes when it matches one of the listed \<open>{ email, user }\<close>.
\<close>

definition Group_updateOne_pull :: "jsval \<Rightarrow> member list \<Rightarrow> db \<Rightarrow> db" where
  "Group_updateOne_pull v ms d =
     d\<lparr>groups := update_first (name_is v)
                    (\<lambda>g. g\<lparr>members := filter (\<lambda>m. m \<notin> set ms) (members g)\<rparr>) (groups d)\<rparr>"

definition Group_deleteMany_name :: "string \<Rightarrow> db \<Rightarrow> nat \<times> db" where
  "Group_deleteMany_name n d =
     (length (filter (\<lambda>g. name g = n) (groups d)),
      d\<lparr>groups := filter (\<lambda>g. name g \<noteq> n) (groups d)\<rparr>)"

definition User_deleteMany_email :: "string \<Rightarrow> db \<Rightarrow> db" where
  "User_deleteMany_email e d = d\<lparr>users := filter (\<lambda>u. email u \<noteq> e) (users d)\<rparr>"

definition transactions_find_username :: "db \<Rightarrow> string \<Rightarrow> transaction list" where
  "transactions_find_username d n = filter (\<lambda>t. tx_username t = n) (transactions d)"

definition transactions_deleteMany_email :: "env \<Rightarrow> string \<Rightarrow> db \<Rightarrow> db" where
  "transactions_deleteMany_email E e d =
     d\<lparr>transactions := filter (\<lambda>t. \<not> tx_matches_email E e t) (transactions d)\<rparr>"

subsection \<open>getUser\<close>

definition getUser :: "env \<Rightarrow> request \<Rightarrow> res \<Rightarrow> db \<Rightarrow> outcome" where
  "getUser E req res0 d =
     (case verifyMultipleAuth E req res0 [''User'', ''Admin''] of
        (a, res1) \<Rightarrow>
          if \<not> authorized a then send 401 (JsonError (cause a)) d
          else
            (case User_findOne_refreshToken d (cookies_refreshToken req) of
               None \<Rightarrow> send 400 (JsonError ''User not found'') d
             | Some user \<Rightarrow>
                 send 200 (UserData (username user) (email user) (role user)
                             (locals_refreshedTokenMessage res1)) d))"

subsection \<open>createGroup\<close>

text \<open>
  After \<open>save\<close>, the body lists \<^verbatim>\<open>group.members.map((m) => { m.email; })\<close>: one
  \<^verbatim>\<open>undefined\<close> for each member.
\<close>

definition createGroup :: "env \<Rightarrow> request \<Rightarrow> res \<Rightarrow> db \<Rightarrow> outcome" where
  "createGroup E req res0 d =
     (case body_memberEmails req of
        None \<Rightarrow> send 401 (JsonMessage ''Missing parameters'') d
      | Some memberEmails \<Rightarrow>
          (case body_name req of
             JUndefined \<Rightarrow> send 401 (JsonMessage ''Missing parameters'') d
           | JString n \<Rightarrow>
               (case verifyAuth E req res0 ''Group'' of
                  (a, res1) \<Rightarrow>
                    if \<not> authorized a then send 401 (JsonError (cause a)) d
                    else if Group_findOne_name d (JString n) \<noteq> None
                    then send 401 (JsonError ''A group with the same name already exists'') d
                    else
                      (let c = checkGroupEmails d memberEmails JUndefined in
                       if length (validEmails c) = 0
                       then send 401 (JsonError ''All the emails are invalid'') d
                       else
                         (case resolveMembers d (validEmails c) of
                            Inl err \<Rightarrow> send 500 (JsonError (message err)) d
                          | Inr ms \<Rightarrow>
                              send 200
                                (GroupData (JString n) (map (\<lambda>m. JUndefined) ms)
                                   (alreadyInGroup c) (membersNotFound c)
                                   (locals_refreshedTokenMessage res1))
                                (Group_save \<lparr>name = n, members = ms\<rparr> d))))))"

subsection \<open>addToGroup\<close>

text \<open>
  The body is built in the \<open>then\<close> of the update, from a second \<open>findOne\<close>; were that to
  find no group, reading \<open>.members\<close> would throw inside the promise chain, whose \<open>catch\<close>
  rethrows: no response is sent.
\<close>

definition addToGroup :: "env \<Rightarrow> request \<Rightarrow> res \<Rightarrow> db \<Rightarrow> outcome" where
  "addToGroup E req res0 d =
     (case body_memberEmails req of
        None \<Rightarrow>
          send 400 (JsonError ''The request body does not contain all the necessary attributes'') d
      | Some memberEmails \<Rightarrow>
          if params_name req = JUndefined
          then send 400 (JsonError ''The request body does not contain all the necessary attributes'') d
          else
            (case verifyMultipleAuth E req res0 [''User'', ''Admin''] of
               (a, res1) \<Rightarrow>
                 if \<not> authorized a then send 401 (JsonError (cause a)) d
                 else
                   (case (if routeIntent req = ''add''
                          then (case verifyAuth E req res1 ''Group'' of
                                  (a2, res2) \<Rightarrow>
                                    if \<not> authorized a2
                                    then Inl (send 401 (JsonError (cause a2)) d)
                                    else Inr res2)
                          else if routeIntent req = ''insert''
                          then (case verifyAuth E req res1 ''Admin'' of
                                  (a2, res2) \<Rightarrow>
                                    if \<not> authorized a2
                                    then Inl (send 401 (JsonError (cause a2)) d)
                                    else Inr res2)
                          else Inl (send 400 (JsonError ''Path not correct'') d)) of
                      Inl out \<Rightarrow> out
                    | Inr res2 \<Rightarrow>
                        if Group_findOne_name d (params_name req) = None
                        then send 400 (JsonError ''Group not found'') d
                        else if list_ex (\<lambda>email. \<not> isEmail E email) memberEmails
                        then send 400 (JsonError ''Mail not valid'') d
                        else
                          (let c = checkGroupEmails d memberEmails JUndefined in
                           if length (validEmails c) = 0
                           then send 400 (JsonError ''All the emails are invalid'') d
                           else
                             (case resolveMembers d (validEmails c) of
                                Inl err \<Rightarrow> send 500 (JsonError (message err)) d
                              | Inr membersToAdd \<Rightarrow>
                                  (let d1 = Group_updateOne_push (params_name req) membersToAdd d in
                                   (case Group_findOne_name d1 (params_name req) of
                                      None \<Rightarrow> (None, d1)
                                    | Some g \<Rightarrow>
                                        send 200
                                          (GroupData (params_name req)
                                             (map (\<lambda>m. JUndefined) (members g))
                                             (alreadyInGroup c) (membersNotFound c)
                                             (locals_refreshedTokenMessage res2))
                                          d1)))))))"

subsection \<open>removeFromGroup\<close>

definition removeFromGroup :: "env \<Rightarrow> request \<Rightarrow> res \<Rightarrow> db \<Rightarrow> outcome" where
  "removeFromGroup E req res0 d =
     (case body_memberEmails req of
        None \<Rightarrow> send 401 (JsonError ''Missing parameters'') d
      | Some memberEmails \<Rightarrow>
          (case (if routeIntent req = ''remove''
                 then (case verifyAuth E req res0 ''Group'' of
                         (a, res1) \<Rightarrow>
                           if \<not> authorized a
                           then Inl (send 401 (JsonError (cause a)) d)
                           else Inr res1)
                 else if routeIntent req = ''pull''
                 then (case verifyAuth E req res0 ''Admin'' of
                         (a, res1) \<Rightarrow>
                           if \<not> authorized a
                           then Inl (send 401 (JsonError (cause a)) d)
                           else Inr res1)
                 else Inl (send 400 (JsonError ''Path not correct'') d)) of
             Inl out \<Rightarrow> out
           | Inr res1 \<Rightarrow>
               if Group_findOne_name d (params_name req) = None
               then send 401 (JsonError ''Group not found'') d
               else
                 (let c = checkGroupEmails d memberEmails (params_name req) in
                  if length (validEmails c) = 0
                  then send 401 (JsonError ''All the emails are invalid'') d
                  else
                    (case resolveMembers d (validEmails c) of
                       Inl err \<Rightarrow> send 500 (JsonError (message err)) d
                     | Inr membersToRemove \<Rightarrow>
                         (let d1 = Group_updateOne_pull (params_name req) membersToRemove d in
                          (case Group_findOne_name d1 (params_name req) of
                             None \<Rightarrow> (None, d1)
                           | Some g \<Rightarrow>
                               send 200
                                 (RemovedData (params_name req)
                                    (map (\<lambda>m. JUndefined) (members g))
                                    (notInGroup c) (membersNotFound c))
                                 d1))))))"

subsection \<open>deleteUser\<close>

text \<open>
  Line 370 is \<^verbatim>\<open>const userGroup = Group.find();\<close> with no \<open>await\<close>: \<open>userGroup\<close> is the
  pending query, not the array of groups, and a query has no \<open>forEach\<close>, so line 372
  throws a TypeError. Were \<open>userGroup\<close> an array, line 375 would assign to the constant
  \<open>emailExists\<close> for the first member with that email, which throws too.
\<close>

datatype query_or_docs = Query | Docs "group list"

definition Group_find_not_awaited :: "db \<Rightarrow> query_or_docs" where
  "Group_find_not_awaited d = Query"

definition forEach_target :: "query_or_docs \<Rightarrow> exn + group list" where
  "forEach_target q =
     (case q of
        Query \<Rightarrow> Inl (TypeError ''userGroup.forEach is not a function'')
      | Docs gs \<Rightarrow> Inr gs)"

definition deleteUser :: "env \<Rightarrow> request \<Rightarrow> res \<Rightarrow> db \<Rightarrow> outcome" where
  "deleteUser E req res0 d =
     (case verifyAuth E req res0 ''Admin'' of
        (AdminAuth, res1) \<Rightarrow>
          if \<not> authorized AdminAuth
          then send 401 (JsonMessage ''Unauthorized: user is not an admin!'') d
          else
            (case body_email req of
               JUndefined \<Rightarrow> send 400 (JsonMessage ''Missing parameters'') d
             | JString e \<Rightarrow>
                 if \<not> isEmail E e then send 400 (JsonError ''Mail not valid'') d
                 else
                   (case User_findOne_email d (JString e) of
                      None \<Rightarrow> send 400 (JsonMessage ''User not found'') d
                    | Some user \<Rightarrow>
                        (let findTransactions = transactions_find_username d (username user);
                             transactionsNumber = length findTransactions;
                             d1 = transactions_deleteMany_email E e d;
                             userGroup = Group_find_not_awaited d1
                         in (case forEach_target userGroup of
                               Inl err \<Rightarrow> send 500 (JsonText (message err)) d1
                             | Inr gs \<Rightarrow>
                                 if list_ex (has_member e) gs
                                 then send 500 (JsonText ''Assignment to constant variable.'') d1
                                 else
                                   send 200
                                     (DeletedUser transactionsNumber False
                                        (locals_refreshedTokenMessage res1))
                                     (User_deleteMany_email e d1))))))"

subsection \<open>deleteGroup\<close>

definition deleteGroup :: "env \<Rightarrow> request \<Rightarrow> res \<Rightarrow> db \<Rightarrow> outcome" where
  "deleteGroup E req res0 d =
     (case verifyAuth E req res0 ''Admin'' of
        (AdminAuth, res1) \<Rightarrow>
          if \<not> authorized AdminAuth
          then send 401 (JsonMessage ''Unauthorized: user is not an admin!'') d
          else
            (case body_name req of
               JUndefined \<Rightarrow> send 400 (JsonMessage ''Missing parameters'') d
             | JString n \<Rightarrow>
                 if n = [] then send 400 (JsonMessage ''the request body is an empty string'') d
                 else
                   (case verifyAuth E req res1 ''Group'' of
                      (a, res2) \<Rightarrow>
                        if \<not> authorized a then send 401 (JsonMessage (cause a)) d
                        else
                          (case Group_deleteMany_name n d of
                             (deletedCount, d1) \<Rightarrow>
                               if deletedCount = 0
                               then send 400 (JsonMessage ''Group not found'') d1
                               else send 200 (JsonMessage ''Group deleted'') d1))))"

subsection \<open>What the lookups decide\<close>

text \<open>The conditions \<open>!result\<close> and \<open>result\<close> of the three predicates of lines 439 to 460.\<close>

definition registered :: "db \<Rightarrow> string \<Rightarrow> bool" where
  "registered d e = (User_findOne_email d (JString e) \<noteq> None)"

definition in_any_group :: "db \<Rightarrow> string \<Rightarrow> bool" where
  "in_any_group d e = (Group_findOne_member d e \<noteq> None)"

definition in_group :: "db \<Rightarrow> string \<Rightarrow> string \<Rightarrow> bool" where
  "in_group d n e = (Group_findOne_name_member d n e \<noteq> None)"

subsection \<open>Example data\<close>

text \<open>
  A small store, four settings of the helpers and two requests, for the concrete
  evaluations below: three users, one group \<open>Family\<close> with the member \<open>b@x.com\<close>, and
  three transactions, two of them of \<open>alice\<close> and one of \<open>bob\<close>.
\<close>

definition alice :: user where
  "alice = \<lparr>username = ''alice'', email = ''a@x.com'', role = ''Regular'',
            refreshToken = Some ''tokA''\<rparr>"

definition bob :: user where
  "bob = \<lparr>username = ''bob'', email = ''b@x.com'', role = ''Regular'', refreshToken = None\<rparr>"

definition carol :: user where
  "carol = \<lparr>username = ''carol'', email = ''c@x.com'', role = ''Admin'',
            refreshToken = Some ''tokC''\<rparr>"

definition family :: group where
  "family = \<lparr>name = ''Family'',
             members = [\<lparr>member_email = JString ''b@x.com'', member_user = Some bob\<rparr>]\<rparr>"

definition db0 :: db where
  "db0 = \<lparr>users = [alice, bob, carol], groups = [family],
          transactions = [\<lparr>tx_username = ''alice'', tx_type = ''food'', tx_amount = 12\<rparr>,
                          \<lparr>tx_username = ''bob'', tx_type = ''rent'', tx_amount = 500\<rparr>,
                          \<lparr>tx_username = ''alice'', tx_type = ''fuel'', tx_amount = 40\<rparr>]\<rparr>"

text \<open>
  \<open>allow\<close> authorizes every caller and \<open>deny\<close> none; neither writes to \<open>res\<close>. Both take
  a string with an \<open>@\<close> for an email, and the filter \<^verbatim>\<open>{ email: email }\<close> on
  \<open>transactions\<close> to match nothing.
\<close>

definition allow :: env where
  "allow = \<lparr>verifyAuth = (\<lambda>req r t. (\<lparr>authorized = True, cause = ''Authorized''\<rparr>, r)),
            verifyMultipleAuth = (\<lambda>req r ts. (\<lparr>authorized = True, cause = ''Authorized''\<rparr>, r)),
            isEmail = (\<lambda>s. CHR ''@'' \<in> set s),
            tx_matches_email = (\<lambda>e t. False)\<rparr>"

definition deny :: env where
  "deny = \<lparr>verifyAuth = (\<lambda>req r t. (\<lparr>authorized = False, cause = ''Unauthorized''\<rparr>, r)),
           verifyMultipleAuth = (\<lambda>req r ts. (\<lparr>authorized = False, cause = ''Unauthorized''\<rparr>, r)),
           isEmail = (\<lambda>s. CHR ''@'' \<in> set s),
           tx_matches_email = (\<lambda>e t. False)\<rparr>"

text \<open>\<open>members_only\<close> passes the check of \<open>verifyMultipleAuth\<close> and fails every \<open>verifyAuth\<close>.\<close>

definition members_only :: env where
  "members_only =
     allow\<lparr>verifyAuth := (\<lambda>req r t. (\<lparr>authorized = False, cause = ''Unauthorized''\<rparr>, r))\<rparr>"

text \<open>\<open>admin_only\<close> passes \<open>verifyMultipleAuth\<close>, and \<open>verifyAuth\<close> for \<open>Admin\<close> alone.\<close>

definition admin_only :: env where
  "admin_only =
     allow\<lparr>verifyAuth :=
       (\<lambda>req r t. (\<lparr>authorized = (t = ''Admin''), cause = ''Unauthorized''\<rparr>, r))\<rparr>"

definition req0 :: request where
  "req0 = \<lparr>body_name = JUndefined, body_memberEmails = None, body_email = JUndefined,
           params_name = JUndefined, params_username = JUndefined, path = [],
           cookies_accessToken = JUndefined, cookies_refreshToken = JUndefined\<rparr>"

text \<open>A request that carries every field the orchestrators read, on the route \<open>remove\<close>.\<close>

definition req_family :: request where
  "req_family =
     req0\<lparr>body_name := JString ''Family'', body_memberEmails := Some [''a@x.com''],
          body_email := JString ''a@x.com'', params_name := JString ''Family'',
          path := ''/groups/Family/remove''\<rparr>"

definition res_empty :: res where
  "res_empty = \<lparr>locals_refreshedTokenMessage = JUndefined\<rparr>"

section \<open>Properties\<close>

subsection \<open>The filter passes\<close>

lemma asyncFilter_push:
  "asyncFilter (\<lambda>e acc. if keep e then (True, acc) else (False, acc @ [e])) xs acc =
     (filter keep xs, acc @ filter (\<lambda>e. \<not> keep e) xs)"
  by (induction xs arbitrary: acc) simp_all

lemma pass1_eq:
  "(\<lambda>e acc. (case User_findOne_email d (JString e) of
                None \<Rightarrow> (False, acc @ [e]) | Some result \<Rightarrow> (True, acc))) =
   (\<lambda>e acc. if registered d e then (True, acc) else (False, acc @ [e]))"
  by (auto simp: registered_def fun_eq_iff split: option.splits)

lemma pass2_any_eq:
  "(\<lambda>e acc. (case Group_findOne_member d e of
                Some result \<Rightarrow> (False, acc @ [e]) | None \<Rightarrow> (True, acc))) =
   (\<lambda>e acc. if \<not> in_any_group d e then (True, acc) else (False, acc @ [e]))"
  by (auto simp: in_any_group_def fun_eq_iff split: option.splits)

lemma pass2_group_eq:
  "(\<lambda>e acc. (case Group_findOne_name_member d n e of
                None \<Rightarrow> (False, acc @ [e]) | Some result \<Rightarrow> (True, acc))) =
   (\<lambda>e acc. if in_group d n e then (True, acc) else (False, acc @ [e]))"
  by (auto simp: in_group_def fun_eq_iff split: option.splits)

lemma filterEmails_any:
  "filterEmails d es JUndefined =
     \<lparr>l_memberEmails = filter (\<lambda>e. \<not> in_any_group d e) (filter (registered d) es),
      l_alreadyInGroup = filter (in_any_group d) (filter (registered d) es),
      l_membersNotFound = filter (\<lambda>e. \<not> registered d e) es,
      l_notInGroup = []\<rparr>"
  unfolding filterEmails_def pass1_eq pass2_any_eq
  by (simp add: asyncFilter_push)

lemma filterEmails_group:
  "filterEmails d es (JString n) =
     \<lparr>l_memberEmails = filter (in_group d n) (filter (registered d) es),
      l_alreadyInGroup = [],
      l_membersNotFound = filter (\<lambda>e. \<not> registered d e) es,
      l_notInGroup = filter (\<lambda>e. \<not> in_group d n e) (filter (registered d) es)\<rparr>"
  unfolding filterEmails_def pass1_eq pass2_group_eq
  by (simp add: asyncFilter_push)

lemmas example_defs = alice_def bob_def carol_def family_def db0_def allow_def deny_def
  members_only_def admin_only_def req0_def req_family_def res_empty_def

lemma registered_iff: "registered d e \<longleftrightarrow> e \<in> email ` set (users d)"
  by (auto simp: registered_def User_findOne_email_def find_None_iff)

lemma in_any_group_iff: "in_any_group d e \<longleftrightarrow> (\<exists>g \<in> set (groups d). has_member e g)"
  by (auto simp: in_any_group_def Group_findOne_member_def find_None_iff)

lemma in_group_iff:
  "in_group d n e \<longleftrightarrow> (\<exists>g \<in> set (groups d). name g = n \<and> has_member e g)"
  by (auto simp: in_group_def Group_findOne_name_member_def find_None_iff)

lemma filterEmails_cases:
  "filterEmails d es g =
     (case g of
        JUndefined \<Rightarrow>
          \<lparr>l_memberEmails = filter (\<lambda>e. registered d e \<and> \<not> in_any_group d e) es,
           l_alreadyInGroup = filter (\<lambda>e. registered d e \<and> in_any_group d e) es,
           l_membersNotFound = filter (\<lambda>e. \<not> registered d e) es,
           l_notInGroup = []\<rparr>
      | JString n \<Rightarrow>
          \<lparr>l_memberEmails = filter (\<lambda>e. registered d e \<and> in_group d n e) es,
           l_alreadyInGroup = [],
           l_membersNotFound = filter (\<lambda>e. \<not> registered d e) es,
           l_notInGroup = filter (\<lambda>e. registered d e \<and> \<not> in_group d n e) es\<rparr>)"
  by (cases g) (simp_all add: filterEmails_any filterEmails_group conj_commute)

subsection \<open>C1: the four lists partition the candidates\<close>

text \<open>
  C1, as the spec states it, fails on the code: the candidates are not de-duplicated, in
  any way. Given the same registered email twice, the passes keep both occurrences and the
  returned \<open>validEmails\<close> has two entries.
\<close>

theorem checkGroupEmails_keeps_duplicates:
  "l_memberEmails (filterEmails db0 [''a@x.com'', ''a@x.com''] JUndefined)
     = [''a@x.com'', ''a@x.com'']
   \<and> length (validEmails (checkGroupEmails db0 [''a@x.com'', ''a@x.com''] JUndefined)) = 2"
  by (simp add: checkGroupEmails_def filterEmails_cases registered_iff in_any_group_iff
      has_member_def example_defs)

text \<open>
  Nor are the candidates case-normalized. The lookups compare the strings as they are,
  so of two spellings of one address the registered one is valid and the other is not
  found.
\<close>

lemma checkGroupEmails_keeps_case:
  "l_memberEmails (filterEmails db0 [''a@x.com'', ''A@X.COM''] JUndefined) = [''a@x.com'']
   \<and> l_membersNotFound (filterEmails db0 [''a@x.com'', ''A@X.COM''] JUndefined) = [''A@X.COM'']"
  by (simp add: filterEmails_cases registered_iff in_any_group_iff has_member_def example_defs)

text \<open>
  C1, amended: for every candidate list and either mode, the four lists that the filter
  passes of \<open>checkGroupEmails\<close> compute (the candidates left in \<open>memberEmails\<close>, and
  \<open>alreadyInGroup\<close>, \<open>membersNotFound\<close>, \<open>notInGroup\<close>) are pairwise disjoint as sets and
  their union is the set of the candidates as given. Nothing is de-duplicated or
  case-normalized: every occurrence of a candidate is kept, in the one list its email
  belongs to, so the four lists together hold the candidates with their multiplicities.
  Each returned array has as many entries as the list it is mapped from.
\<close>

theorem checkGroupEmails_partition:
  "set (l_memberEmails (filterEmails d es g)) \<inter> set (l_alreadyInGroup (filterEmails d es g)) = {}
   \<and> set (l_memberEmails (filterEmails d es g)) \<inter> set (l_membersNotFound (filterEmails d es g)) = {}
   \<and> set (l_memberEmails (filterEmails d es g)) \<inter> set (l_notInGroup (filterEmails d es g)) = {}
   \<and> set (l_alreadyInGroup (filterEmails d es g)) \<inter> set (l_membersNotFound (filterEmails d es g)) = {}
   \<and> set (l_alreadyInGroup (filterEmails d es g)) \<inter> set (l_notInGroup (filterEmails d es g)) = {}
   \<and> set (l_membersNotFound (filterEmails d es g)) \<inter> set (l_notInGroup (filterEmails d es g)) = {}
   \<and> set (l_memberEmails (filterEmails d es g)) \<union> set (l_alreadyInGroup (filterEmails d es g))
       \<union> set (l_membersNotFound (filterEmails d es g)) \<union> set (l_notInGroup (filterEmails d es g))
       = set es
   \<and> mset (l_memberEmails (filterEmails d es g)) + mset (l_alreadyInGroup (filterEmails d es g))
       + mset (l_membersNotFound (filterEmails d es g)) + mset (l_notInGroup (filterEmails d es g))
       = mset es
   \<and> length (validEmails (checkGroupEmails d es g)) = length (l_memberEmails (filterEmails d es g))
   \<and> length (alreadyInGroup (checkGroupEmails d es g)) = length (l_alreadyInGroup (filterEmails d es g))
   \<and> length (membersNotFound (checkGroupEmails d es g)) = length (l_membersNotFound (filterEmails d es g))
   \<and> length (notInGroup (checkGroupEmails d es g)) = length (l_notInGroup (filterEmails d es g))"
proof (cases g)
  case JUndefined
  then show ?thesis
    by (auto simp: filterEmails_cases checkGroupEmails_def multiset_eq_iff)
next
  case (JString n)
  then show ?thesis
    by (auto simp: filterEmails_cases checkGroupEmails_def multiset_eq_iff)
qed

subsection \<open>C2: where each candidate goes\<close>

text \<open>
  The two filter passes of lines 439 to 460 sort every candidate as intended. For every
  candidate email \<open>e\<close> of a call, in the local arrays: if no registered user has the
  email, \<open>e\<close> is in \<open>membersNotFound\<close> and in no other array (it is dropped before the
  second pass). Otherwise, without a target group, \<open>e\<close> is in \<open>alreadyInGroup\<close> alone
  when some group has it as a member, and left in \<open>memberEmails\<close> alone when none has;
  with a target group \<open>n\<close>, \<open>e\<close> is left in \<open>memberEmails\<close> alone when a group named
  \<open>n\<close> has it as a member, and in \<open>notInGroup\<close> alone otherwise.
\<close>

lemma filterEmails_placement:
  "e \<in> set es \<Longrightarrow>
   (e \<notin> email ` set (users d) \<longrightarrow>
      e \<in> set (l_membersNotFound (filterEmails d es g))
      \<and> e \<notin> set (l_memberEmails (filterEmails d es g))
      \<and> e \<notin> set (l_alreadyInGroup (filterEmails d es g))
      \<and> e \<notin> set (l_notInGroup (filterEmails d es g)))
   \<and> (e \<in> email ` set (users d) \<and> g = JUndefined
        \<and> (\<exists>gr \<in> set (groups d). has_member e gr) \<longrightarrow>
      e \<in> set (l_alreadyInGroup (filterEmails d es g))
      \<and> e \<notin> set (l_memberEmails (filterEmails d es g))
      \<and> e \<notin> set (l_membersNotFound (filterEmails d es g))
      \<and> e \<notin> set (l_notInGroup (filterEmails d es g)))
   \<and> (e \<in> email ` set (users d) \<and> g = JUndefined
        \<and> \<not> (\<exists>gr \<in> set (groups d). has_member e gr) \<longrightarrow>
      e \<in> set (l_memberEmails (filterEmails d es g))
      \<and> e \<notin> set (l_alreadyInGroup (filterEmails d es g))
      \<and> e \<notin> set (l_membersNotFound (filterEmails d es g))
      \<and> e \<notin> set (l_notInGroup (filterEmails d es g)))
   \<and> (e \<in> email ` set (users d) \<and> g = JString n
        \<and> (\<exists>gr \<in> set (groups d). name gr = n \<and> has_member e gr) \<longrightarrow>
      e \<in> set (l_memberEmails (filterEmails d es g))
      \<and> e \<notin> set (l_alreadyInGroup (filterEmails d es g))
      \<and> e \<notin> set (l_membersNotFound (filterEmails d es g))
      \<and> e \<notin> set (l_notInGroup (filterEmails d es g)))
   \<and> (e \<in> email ` set (users d) \<and> g = JString n
        \<and> \<not> (\<exists>gr \<in> set (groups d). name gr = n \<and> has_member e gr) \<longrightarrow>
      e \<in> set (l_notInGroup (filterEmails d es g))
      \<and> e \<notin> set (l_memberEmails (filterEmails d es g))
      \<and> e \<notin> set (l_alreadyInGroup (filterEmails d es g))
      \<and> e \<notin> set (l_membersNotFound (filterEmails d es g)))"
  by (cases g) (simp_all add: filterEmails_cases registered_iff in_any_group_iff in_group_iff)

text \<open>
  The five cases on the example store: \<open>zz\<close> is no user's email, \<open>b@x.com\<close> is a member
  of \<open>Family\<close>, \<open>a@x.com\<close> is a user in no group.
\<close>

lemma filterEmails_placement_example:
  "''zz'' \<in> set (l_membersNotFound (filterEmails db0 [''a@x.com'', ''b@x.com'', ''zz''] JUndefined))
   \<and> ''b@x.com'' \<in> set (l_alreadyInGroup (filterEmails db0 [''a@x.com'', ''b@x.com'', ''zz''] JUndefined))
   \<and> ''a@x.com'' \<in> set (l_memberEmails (filterEmails db0 [''a@x.com'', ''b@x.com'', ''zz''] JUndefined))
   \<and> ''b@x.com'' \<in> set (l_memberEmails
         (filterEmails db0 [''a@x.com'', ''b@x.com'', ''zz''] (JString ''Family'')))
   \<and> ''a@x.com'' \<in> set (l_notInGroup
         (filterEmails db0 [''a@x.com'', ''b@x.com'', ''zz''] (JString ''Family'')))"
  using
    filterEmails_placement [of "''zz''" "[''a@x.com'', ''b@x.com'', ''zz'']" db0 JUndefined]
    filterEmails_placement [of "''b@x.com''" "[''a@x.com'', ''b@x.com'', ''zz'']" db0 JUndefined]
    filterEmails_placement [of "''a@x.com''" "[''a@x.com'', ''b@x.com'', ''zz'']" db0 JUndefined]
    filterEmails_placement [of "''b@x.com''" "[''a@x.com'', ''b@x.com'', ''zz'']" db0
      "JString ''Family''" "''Family''"]
    filterEmails_placement [of "''a@x.com''" "[''a@x.com'', ''b@x.com'', ''zz'']" db0
      "JString ''Family''" "''Family''"]
  by (simp add: example_defs has_member_def)

text \<open>
  C2 on the example store: \<open>a@x.com\<close> is a user in no group, \<open>b@x.com\<close> a user and a
  member of \<open>Family\<close>, \<open>zz\<close> no user's email. What \<open>checkGroupEmails\<close> returns places
  none of them anywhere: lines 462 to 475 map every entry of the four arrays to
  \<^verbatim>\<open>undefined\<close>, so \<open>zz\<close> is not in the returned \<open>membersNotFound\<close>, \<open>b@x.com\<close> is not
  in \<open>alreadyInGroup\<close> and \<open>a@x.com\<close> is not in \<open>validEmails\<close>; with the target group
  \<open>Family\<close>, \<open>b@x.com\<close> is not in \<open>validEmails\<close> and \<open>a@x.com\<close> is not in
  \<open>notInGroup\<close>.
\<close>

theorem checkGroupEmails_returns_no_email:
  "checkGroupEmails db0 [''a@x.com'', ''b@x.com'', ''zz''] JUndefined
     = \<lparr>validEmails = [JUndefined], alreadyInGroup = [JUndefined],
        membersNotFound = [JUndefined], notInGroup = []\<rparr>
   \<and> JString ''zz''
        \<notin> set (membersNotFound (checkGroupEmails db0 [''a@x.com'', ''b@x.com'', ''zz''] JUndefined))
   \<and> JString ''b@x.com''
        \<notin> set (alreadyInGroup (checkGroupEmails db0 [''a@x.com'', ''b@x.com'', ''zz''] JUndefined))
   \<and> JString ''a@x.com''
        \<notin> set (validEmails (checkGroupEmails db0 [''a@x.com'', ''b@x.com'', ''zz''] JUndefined))
   \<and> checkGroupEmails db0 [''a@x.com'', ''b@x.com'', ''zz''] (JString ''Family'')
     = \<lparr>validEmails = [JUndefined], alreadyInGroup = [],
        membersNotFound = [JUndefined], notInGroup = [JUndefined]\<rparr>
   \<and> JString ''b@x.com''
        \<notin> set (validEmails
             (checkGroupEmails db0 [''a@x.com'', ''b@x.com'', ''zz''] (JString ''Family'')))
   \<and> JString ''a@x.com''
        \<notin> set (notInGroup
             (checkGroupEmails db0 [''a@x.com'', ''b@x.com'', ''zz''] (JString ''Family'')))"
  by (simp add: checkGroupEmails_def filterEmails_cases registered_iff in_any_group_iff
      in_group_iff has_member_def example_defs)

subsection \<open>The controllers, branch by branch\<close>

text \<open>
  Every element of \<open>validEmails\<close> is \<^verbatim>\<open>undefined\<close>, so building the members throws as
  soon as there is one. With that, each controller is a chain of checks, each with its
  response and the storage it leaves.
\<close>

lemma validEmails_map:
  "validEmails (checkGroupEmails d es g) = map (\<lambda>x. JUndefined) (l_memberEmails (filterEmails d es g))"
  by (simp add: checkGroupEmails_def Let_def)

lemma resolveMembers_undefined:
  "resolveMembers d (map (\<lambda>x. JUndefined) xs) =
     (if xs = [] then Inr []
      else Inl (TypeError ''Cannot read properties of undefined (reading 'email')''))"
  by (cases xs) (simp_all add: resolveMember_def get_email_def)

lemma resolveMembers_validEmails:
  "resolveMembers d' (validEmails (checkGroupEmails d es g)) =
     (if validEmails (checkGroupEmails d es g) = [] then Inr []
      else Inl (TypeError ''Cannot read properties of undefined (reading 'email')''))"
  by (simp add: validEmails_map resolveMembers_undefined)

lemma createGroup_eq:
  "createGroup E req res0 d =
     (case body_memberEmails req of
        None \<Rightarrow> send 401 (JsonMessage ''Missing parameters'') d
      | Some es \<Rightarrow>
          (case body_name req of
             JUndefined \<Rightarrow> send 401 (JsonMessage ''Missing parameters'') d
           | JString n \<Rightarrow>
               if \<not> authorized (fst (verifyAuth E req res0 ''Group''))
               then send 401 (JsonError (cause (fst (verifyAuth E req res0 ''Group'')))) d
               else if Group_findOne_name d (JString n) \<noteq> None
               then send 401 (JsonError ''A group with the same name already exists'') d
               else if validEmails (checkGroupEmails d es JUndefined) = []
               then send 401 (JsonError ''All the emails are invalid'') d
               else send 500
                      (JsonError ''Cannot read properties of undefined (reading 'email')'') d))"
  unfolding createGroup_def Let_def resolveMembers_validEmails
  by (simp add: case_prod_beta split: option.split jsval.split cong: if_cong)

lemma addToGroup_eq:
  "addToGroup E req res0 d =
     (case body_memberEmails req of
        None \<Rightarrow>
          send 400 (JsonError ''The request body does not contain all the necessary attributes'') d
      | Some es \<Rightarrow>
          if params_name req = JUndefined
          then send 400 (JsonError ''The request body does not contain all the necessary attributes'') d
          else if \<not> authorized (fst (verifyMultipleAuth E req res0 [''User'', ''Admin'']))
          then send 401 (JsonError (cause (fst (verifyMultipleAuth E req res0 [''User'', ''Admin''])))) d
          else if routeIntent req = ''add''
                  \<and> \<not> authorized (fst (verifyAuth E req
                        (snd (verifyMultipleAuth E req res0 [''User'', ''Admin''])) ''Group''))
          then send 401 (JsonError (cause (fst (verifyAuth E req
                        (snd (verifyMultipleAuth E req res0 [''User'', ''Admin''])) ''Group'')))) d
          else if routeIntent req \<noteq> ''add'' \<and> routeIntent req = ''insert''
                  \<and> \<not> authorized (fst (verifyAuth E req
                        (snd (verifyMultipleAuth E req res0 [''User'', ''Admin''])) ''Admin''))
          then send 401 (JsonError (cause (fst (verifyAuth E req
                        (snd (verifyMultipleAuth E req res0 [''User'', ''Admin''])) ''Admin'')))) d
          else if routeIntent req \<noteq> ''add'' \<and> routeIntent req \<noteq> ''insert''
          then send 400 (JsonError ''Path not correct'') d
          else if Group_findOne_name d (params_name req) = None
          then send 400 (JsonError ''Group not found'') d
          else if list_ex (\<lambda>email. \<not> isEmail E email) es
          then send 400 (JsonError ''Mail not valid'') d
          else if validEmails (checkGroupEmails d es JUndefined) = []
          then send 400 (JsonError ''All the emails are invalid'') d
          else send 500
                 (JsonError ''Cannot read properties of undefined (reading 'email')'') d)"
  unfolding addToGroup_def Let_def resolveMembers_validEmails
  by (simp add: case_prod_beta split: option.split jsval.split cong: if_cong)

lemma removeFromGroup_eq:
  "removeFromGroup E req res0 d =
     (case body_memberEmails req of
        None \<Rightarrow> send 401 (JsonError ''Missing parameters'') d
      | Some es \<Rightarrow>
          if routeIntent req = ''remove''
                  \<and> \<not> authorized (fst (verifyAuth E req res0 ''Group''))
          then send 401 (JsonError (cause (fst (verifyAuth E req res0 ''Group'')))) d
          else if routeIntent req \<noteq> ''remove'' \<and> routeIntent req = ''pull''
                  \<and> \<not> authorized (fst (verifyAuth E req res0 ''Admin''))
          then send 401 (JsonError (cause (fst (verifyAuth E req res0 ''Admin'')))) d
          else if routeIntent req \<noteq> ''remove'' \<and> routeIntent req \<noteq> ''pull''
          then send 400 (JsonError ''Path not correct'') d
          else if Group_findOne_name d (params_name req) = None
          then send 401 (JsonError ''Group not found'') d
          else if validEmails (checkGroupEmails d es (params_name req)) = []
          then send 401 (JsonError ''All the emails are invalid'') d
          else send 500
                 (JsonError ''Cannot read properties of undefined (reading 'email')'') d)"
  unfolding removeFromGroup_def Let_def resolveMembers_validEmails
  by (simp add: case_prod_beta split: option.split jsval.split cong: if_cong)

lemma deleteUser_eq:
  "deleteUser E req res0 d =
     (if \<not> authorized (fst (verifyAuth E req res0 ''Admin''))
      then send 401 (JsonMessage ''Unauthorized: user is not an admin!'') d
      else
        (case body_email req of
           JUndefined \<Rightarrow> send 400 (JsonMessage ''Missing parameters'') d
         | JString e \<Rightarrow>
             if \<not> isEmail E e then send 400 (JsonError ''Mail not valid'') d
             else if User_findOne_email d (JString e) = None
             then send 400 (JsonMessage ''User not found'') d
             else send 500 (JsonText ''userGroup.forEach is not a function'')
                    (transactions_deleteMany_email E e d)))"
  unfolding deleteUser_def Let_def Group_find_not_awaited_def forEach_target_def
  by (simp add: case_prod_beta split: option.split jsval.split cong: if_cong)

lemma filter_none_removed:
  "length (filter P xs) = 0 \<Longrightarrow> filter (\<lambda>x. \<not> P x) xs = xs"
  by (induction xs) (auto split: if_splits)

lemma Group_deleteMany_name_none:
  "fst (Group_deleteMany_name n d) = 0 \<Longrightarrow> snd (Group_deleteMany_name n d) = d"
  by (simp add: Group_deleteMany_name_def filter_none_removed)

lemma deleteGroup_eq:
  "deleteGroup E req res0 d =
     (if \<not> authorized (fst (verifyAuth E req res0 ''Admin''))
      then send 401 (JsonMessage ''Unauthorized: user is not an admin!'') d
      else
        (case body_name req of
           JUndefined \<Rightarrow> send 400 (JsonMessage ''Missing parameters'') d
         | JString n \<Rightarrow>
             if n = [] then send 400 (JsonMessage ''the request body is an empty string'') d
             else if \<not> authorized (fst (verifyAuth E req (snd (verifyAuth E req res0 ''Admin'')) ''Group''))
             then send 401 (JsonMessage (cause (fst (verifyAuth E req
                     (snd (verifyAuth E req res0 ''Admin'')) ''Group'')))) d
             else if fst (Group_deleteMany_name n d) = 0
             then send 400 (JsonMessage ''Group not found'') d
             else send 200 (JsonMessage ''Group deleted'') (snd (Group_deleteMany_name n d))))"
  unfolding deleteGroup_def
  by (simp add: case_prod_beta Group_deleteMany_name_none split: option.split jsval.split cong: if_cong)

lemma getUser_eq:
  "getUser E req res0 d =
     (if \<not> authorized (fst (verifyMultipleAuth E req res0 [''User'', ''Admin'']))
      then send 401 (JsonError (cause (fst (verifyMultipleAuth E req res0 [''User'', ''Admin''])))) d
      else
        (case User_findOne_refreshToken d (cookies_refreshToken req) of
           None \<Rightarrow> send 400 (JsonError ''User not found'') d
         | Some user \<Rightarrow>
             send 200 (UserData (username user) (email user) (role user)
               (locals_refreshedTokenMessage
                  (snd (verifyMultipleAuth E req res0 [''User'', ''Admin''])))) d))"
  unfolding getUser_def
  by (simp add: case_prod_beta split: option.split)

lemmas classify_eval = checkGroupEmails_def filterEmails_cases registered_iff in_any_group_iff
  in_group_iff has_member_def Group_findOne_name_def routeIntent_def

subsection \<open>C3: the returned arrays hold only undefined, and the members cannot be built\<close>

lemma checkGroupEmails_all_undefined:
  "set (validEmails (checkGroupEmails d es g)) \<subseteq> {JUndefined}
   \<and> set (alreadyInGroup (checkGroupEmails d es g)) \<subseteq> {JUndefined}
   \<and> set (membersNotFound (checkGroupEmails d es g)) \<subseteq> {JUndefined}
   \<and> set (notInGroup (checkGroupEmails d es g)) \<subseteq> {JUndefined}"
  by (auto simp: checkGroupEmails_def Let_def)

lemma createGroup_never_succeeds:
  "snd (createGroup E req res0 d) = d
   \<and> (\<exists>r. fst (createGroup E req res0 d) = Some r \<and> status r \<noteq> 200)"
  by (simp add: createGroup_eq send_def split: option.split jsval.split)

lemma addToGroup_never_succeeds:
  "snd (addToGroup E req res0 d) = d
   \<and> (\<exists>r. fst (addToGroup E req res0 d) = Some r \<and> status r \<noteq> 200)"
  by (simp add: addToGroup_eq send_def split: option.split jsval.split)

lemma removeFromGroup_never_succeeds:
  "snd (removeFromGroup E req res0 d) = d
   \<and> (\<exists>r. fst (removeFromGroup E req res0 d) = Some r \<and> status r \<noteq> 200)"
  by (simp add: removeFromGroup_eq send_def split: option.split jsval.split)

text \<open>
  C3: for every input, every element of the four arrays that \<open>checkGroupEmails\<close> returns
  is \<^verbatim>\<open>undefined\<close>. Hence a \<open>createGroup\<close>, \<open>addToGroup\<close> or \<open>removeFromGroup\<close> request
  that passes all the checks and has at least one valid email throws in the step that
  builds the members, and is answered 500 with the TypeError's message and the storage
  as it was. For every request, each of the three leaves the storage as it was and
  answers with a status other than 200.
\<close>

theorem undefined_emails_then_500:
  "set (validEmails (checkGroupEmails d es g)) \<subseteq> {JUndefined}
   \<and> set (alreadyInGroup (checkGroupEmails d es g)) \<subseteq> {JUndefined}
   \<and> set (membersNotFound (checkGroupEmails d es g)) \<subseteq> {JUndefined}
   \<and> set (notInGroup (checkGroupEmails d es g)) \<subseteq> {JUndefined}
   \<and> (body_memberEmails req = Some es \<and> body_name req = JString n
        \<and> authorized (fst (verifyAuth E req res0 ''Group''))
        \<and> Group_findOne_name d (JString n) = None
        \<and> validEmails (checkGroupEmails d es JUndefined) \<noteq> [] \<longrightarrow>
      createGroup E req res0 d =
        send 500 (JsonError ''Cannot read properties of undefined (reading 'email')'') d)
   \<and> (body_memberEmails req = Some es \<and> params_name req \<noteq> JUndefined
        \<and> authorized (fst (verifyMultipleAuth E req res0 [''User'', ''Admin'']))
        \<and> (routeIntent req = ''add''
              \<and> authorized (fst (verifyAuth E req
                    (snd (verifyMultipleAuth E req res0 [''User'', ''Admin''])) ''Group''))
            \<or> routeIntent req = ''insert''
              \<and> authorized (fst (verifyAuth E req
                    (snd (verifyMultipleAuth E req res0 [''User'', ''Admin''])) ''Admin'')))
        \<and> Group_findOne_name d (params_name req) \<noteq> None
        \<and> \<not> list_ex (\<lambda>email. \<not> isEmail E email) es
        \<and> validEmails (checkGroupEmails d es JUndefined) \<noteq> [] \<longrightarrow>
      addToGroup E req res0 d =
        send 500 (JsonError ''Cannot read properties of undefined (reading 'email')'') d)
   \<and> (body_memberEmails req = Some es
        \<and> (routeIntent req = ''remove'' \<and> authorized (fst (verifyAuth E req res0 ''Group''))
            \<or> routeIntent req = ''pull'' \<and> authorized (fst (verifyAuth E req res0 ''Admin'')))
        \<and> Group_findOne_name d (params_name req) \<noteq> None
        \<and> validEmails (checkGroupEmails d es (params_name req)) \<noteq> [] \<longrightarrow>
      removeFromGroup E req res0 d =
        send 500 (JsonError ''Cannot read properties of undefined (reading 'email')'') d)
   \<and> snd (createGroup E req res0 d) = d
   \<and> (\<exists>r. fst (createGroup E req res0 d) = Some r \<and> status r \<noteq> 200)
   \<and> snd (addToGroup E req res0 d) = d
   \<and> (\<exists>r. fst (addToGroup E req res0 d) = Some r \<and> status r \<noteq> 200)
   \<and> snd (removeFromGroup E req res0 d) = d
   \<and> (\<exists>r. fst (removeFromGroup E req res0 d) = Some r \<and> status r \<noteq> 200)"
proof -
  have c: "body_memberEmails req = Some es \<and> body_name req = JString n
        \<and> authorized (fst (verifyAuth E req res0 ''Group''))
        \<and> Group_findOne_name d (JString n) = None
        \<and> validEmails (checkGroupEmails d es JUndefined) \<noteq> [] \<longrightarrow>
      createGroup E req res0 d =
        send 500 (JsonError ''Cannot read properties of undefined (reading 'email')'') d"
    by (simp add: createGroup_eq)
  have a: "body_memberEmails req = Some es \<and> params_name req \<noteq> JUndefined
        \<and> authorized (fst (verifyMultipleAuth E req res0 [''User'', ''Admin'']))
        \<and> (routeIntent req = ''add''
              \<and> authorized (fst (verifyAuth E req
                    (snd (verifyMultipleAuth E req res0 [''User'', ''Admin''])) ''Group''))
            \<or> routeIntent req = ''insert''
              \<and> authorized (fst (verifyAuth E req
                    (snd (verifyMultipleAuth E req res0 [''User'', ''Admin''])) ''Admin'')))
        \<and> Group_findOne_name d (params_name req) \<noteq> None
        \<and> \<not> list_ex (\<lambda>email. \<not> isEmail E email) es
        \<and> validEmails (checkGroupEmails d es JUndefined) \<noteq> [] \<longrightarrow>
      addToGroup E req res0 d =
        send 500 (JsonError ''Cannot read properties of undefined (reading 'email')'') d"
    by (auto simp: addToGroup_eq)
  have r: "body_memberEmails req = Some es
        \<and> (routeIntent req = ''remove'' \<and> authorized (fst (verifyAuth E req res0 ''Group''))
            \<or> routeIntent req = ''pull'' \<and> authorized (fst (verifyAuth E req res0 ''Admin'')))
        \<and> Group_findOne_name d (params_name req) \<noteq> None
        \<and> validEmails (checkGroupEmails d es (params_name req)) \<noteq> [] \<longrightarrow>
      removeFromGroup E req res0 d =
        send 500 (JsonError ''Cannot read properties of undefined (reading 'email')'') d"
    by (auto simp: removeFromGroup_eq)
  show ?thesis
    using checkGroupEmails_all_undefined[of d es g] c a r
      createGroup_never_succeeds[of E req res0 d]
      addToGroup_never_succeeds[of E req res0 d]
      removeFromGroup_never_succeeds[of E req res0 d]
    by blast
qed

text \<open>
  On the example store, with every caller authorized: creating \<open>Friends\<close> with
  \<open>a@x.com\<close>, adding \<open>a@x.com\<close> to \<open>Family\<close> and removing \<open>b@x.com\<close> from \<open>Family\<close> pass
  all the checks, and each is answered 500.
\<close>

theorem undefined_emails_then_500_witness:
  "createGroup allow
      (req0\<lparr>body_name := JString ''Friends'', body_memberEmails := Some [''a@x.com'']\<rparr>)
      res_empty db0
     = send 500 (JsonError ''Cannot read properties of undefined (reading 'email')'') db0
   \<and> addToGroup allow
      (req0\<lparr>params_name := JString ''Family'', body_memberEmails := Some [''a@x.com''],
            path := ''/groups/Family/add''\<rparr>)
      res_empty db0
     = send 500 (JsonError ''Cannot read properties of undefined (reading 'email')'') db0
   \<and> removeFromGroup allow
      (req0\<lparr>params_name := JString ''Family'', body_memberEmails := Some [''b@x.com''],
            path := ''/groups/Family/remove''\<rparr>)
      res_empty db0
     = send 500 (JsonError ''Cannot read properties of undefined (reading 'email')'') db0"
  using
    undefined_emails_then_500 [of db0 "[''a@x.com'']" JUndefined
      "req0\<lparr>body_name := JString ''Friends'', body_memberEmails := Some [''a@x.com'']\<rparr>"
      "''Friends''" allow res_empty]
    undefined_emails_then_500 [of db0 "[''a@x.com'']" JUndefined
      "req0\<lparr>params_name := JString ''Family'', body_memberEmails := Some [''a@x.com''],
            path := ''/groups/Family/add''\<rparr>"
      "''Friends''" allow res_empty]
    undefined_emails_then_500 [of db0 "[''b@x.com'']" JUndefined
      "req0\<lparr>params_name := JString ''Family'', body_memberEmails := Some [''b@x.com''],
            path := ''/groups/Family/remove''\<rparr>"
      "''Friends''" allow res_empty]
  by (simp add: classify_eval example_defs)

subsection \<open>C8: removeFromGroup keeps every group record\<close>

lemma update_first_length: "length (update_first P f xs) = length xs"
  by (induction xs) simp_all

lemma update_first_map:
  "(\<And>x. h (f x) = h x) \<Longrightarrow> map h (update_first P f xs) = map h xs"
  by (induction xs) simp_all

lemma update_first_filter:
  "(\<And>x. P (f x) = P x) \<Longrightarrow>
   filter (\<lambda>x. \<not> P x) (update_first P f xs) = filter (\<lambda>x. \<not> P x) xs"
  by (induction xs) simp_all

lemma name_is_members: "name_is v (g\<lparr>members := ms\<rparr>) = name_is v g"
  by (simp add: name_is_def split: jsval.split)

text \<open>The update that pulls members changes nothing but \<open>members\<close> of groups of that name.\<close>

lemma Group_updateOne_pull_frame:
  "users (Group_updateOne_pull v ms d) = users d
   \<and> transactions (Group_updateOne_pull v ms d) = transactions d
   \<and> length (groups (Group_updateOne_pull v ms d)) = length (groups d)
   \<and> map name (groups (Group_updateOne_pull v ms d)) = map name (groups d)
   \<and> map (\<lambda>g. g\<lparr>members := []\<rparr>) (groups (Group_updateOne_pull v ms d))
       = map (\<lambda>g. g\<lparr>members := []\<rparr>) (groups d)
   \<and> filter (\<lambda>g. \<not> name_is v g) (groups (Group_updateOne_pull v ms d))
       = filter (\<lambda>g. \<not> name_is v g) (groups d)"
  by (simp add: Group_updateOne_pull_def update_first_length update_first_map
      update_first_filter name_is_members)

text \<open>Pulling the only member of \<open>Family\<close> leaves the group, with no members.\<close>

lemma Group_updateOne_pull_last_member:
  "Group_updateOne_pull (JString ''Family'')
     [\<lparr>member_email = JString ''b@x.com'', member_user = Some bob\<rparr>] db0
   = db0\<lparr>groups := [\<lparr>name = ''Family'', members = []\<rparr>]\<rparr>"
  by (simp add: Group_updateOne_pull_def name_is_def example_defs)

text \<open>
  Whatever the members built, \<open>removeFromGroup\<close> leaves the storage as it was or as that
  update leaves it. (Proved from the definition, without the fact that the members are
  never built.)
\<close>

lemma removeFromGroup_storage:
  "snd (removeFromGroup E req res0 d) = d
   \<or> (\<exists>ms. snd (removeFromGroup E req res0 d) = Group_updateOne_pull (params_name req) ms d)"
  unfolding removeFromGroup_def Let_def send_def
  by (auto simp add: case_prod_beta split: option.split sum.split jsval.split)

text \<open>
  C8: after every \<open>removeFromGroup\<close> call the users and the transactions are as before;
  there are as many group records as before, with the same names in the same order; every
  group record is as before but for its \<open>members\<close> (so a group whose members are all
  removed is still there); and the groups that the request does not name are as before.
\<close>

theorem removeFromGroup_frame:
  "users (snd (removeFromGroup E req res0 d)) = users d
   \<and> transactions (snd (removeFromGroup E req res0 d)) = transactions d
   \<and> length (groups (snd (removeFromGroup E req res0 d))) = length (groups d)
   \<and> map name (groups (snd (removeFromGroup E req res0 d))) = map name (groups d)
   \<and> map (\<lambda>g. g\<lparr>members := []\<rparr>) (groups (snd (removeFromGroup E req res0 d)))
       = map (\<lambda>g. g\<lparr>members := []\<rparr>) (groups d)
   \<and> filter (\<lambda>g. \<not> name_is (params_name req) g) (groups (snd (removeFromGroup E req res0 d)))
       = filter (\<lambda>g. \<not> name_is (params_name req) g) (groups d)"
  using removeFromGroup_storage[of E req res0 d]
    Group_updateOne_pull_frame[of "params_name req" _ d]
  by (elim disjE exE) simp_all

subsection \<open>C7: removeFromGroup on an unknown route\<close>

text \<open>
  C7 on the example store: a request to the unknown route \<open>leave\<close> that carries no
  \<open>memberEmails\<close> is answered 401 \<open>Missing parameters\<close>, not BadRequest. The guard of
  line 280 comes before the route is looked at, and line 281 answers it with 401, where
  \<open>addToGroup\<close> (line 203), \<open>deleteUser\<close> (line 353) and \<open>deleteGroup\<close> (line 412)
  answer the same condition with 400.
\<close>

theorem removeFromGroup_missing_emails_first:
  "routeIntent (req0\<lparr>params_name := JString ''Family'', path := ''/groups/Family/leave''\<rparr>) \<noteq> ''remove''
   \<and> routeIntent (req0\<lparr>params_name := JString ''Family'', path := ''/groups/Family/leave''\<rparr>) \<noteq> ''pull''
   \<and> removeFromGroup allow (req0\<lparr>params_name := JString ''Family'', path := ''/groups/Family/leave''\<rparr>)
        res_empty db0
      = (Some \<lparr>status = 401, body = JsonError ''Missing parameters''\<rparr>, db0)"
  by (simp add: removeFromGroup_def routeIntent_def send_def example_defs)
text \<open>
  On every other request the controller does what is claimed: when the request carries
  \<open>memberEmails\<close> and its route intent is neither \<open>remove\<close> nor \<open>pull\<close>,
  \<open>removeFromGroup\<close> fails with BadRequest (400, \<open>Path not correct\<close>) and leaves the
  storage as it was, whatever the other inputs: the group name may be missing, the group
  may not exist, and the caller's capabilities are not consulted. So a request to an
  unknown route is answered by the guard of line 280 or with 400.
\<close>

lemma removeFromGroup_unknown_route:
  "body_memberEmails req \<noteq> None \<Longrightarrow> routeIntent req \<noteq> ''remove'' \<Longrightarrow>
   routeIntent req \<noteq> ''pull'' \<Longrightarrow>
   removeFromGroup E req res0 d = (Some \<lparr>status = 400, body = JsonError ''Path not correct''\<rparr>, d)"
  by (auto simp: removeFromGroup_eq send_def)
text \<open>An unauthorized caller, no group name, an empty list of emails, an unknown route.\<close>

lemma removeFromGroup_unknown_route_example:
  "removeFromGroup deny (req0\<lparr>body_memberEmails := Some [], path := ''/groups/Nowhere''\<rparr>) res_empty db0
     = (Some \<lparr>status = 400, body = JsonError ''Path not correct''\<rparr>, db0)"
  using removeFromGroup_unknown_route
    [of "req0\<lparr>body_memberEmails := Some [], path := ''/groups/Nowhere''\<rparr>" deny res_empty db0]
  by (simp add: routeIntent_def example_defs)

lemma removeFromGroup_unknown_route_outcomes:
  "routeIntent req \<noteq> ''remove'' \<Longrightarrow> routeIntent req \<noteq> ''pull'' \<Longrightarrow>
   removeFromGroup E req res0 d = (Some \<lparr>status = 401, body = JsonError ''Missing parameters''\<rparr>, d)
   \<or> removeFromGroup E req res0 d = (Some \<lparr>status = 400, body = JsonError ''Path not correct''\<rparr>, d)"
  by (cases "body_memberEmails req") (auto simp: removeFromGroup_eq send_def)

subsection \<open>C9: getUser does not read the username of the path\<close>

text \<open>
  C9: two \<open>getUser\<close> requests that differ only in \<open>params.username\<close>, for which the
  authorization helper answers the same, on the same storage, get the same response. For
  an authorized caller the response is decided by the \<open>refreshToken\<close> cookie alone: 400
  \<open>User not found\<close> when no user holds that token, and otherwise 200 with the
  \<open>username\<close>, \<open>email\<close> and \<open>role\<close> of the user who holds it.
\<close>

theorem getUser_ignores_username:
  "verifyMultipleAuth E (req\<lparr>params_username := u\<rparr>) res0 [''User'', ''Admin'']
     = verifyMultipleAuth E req res0 [''User'', ''Admin''] \<Longrightarrow>
   getUser E (req\<lparr>params_username := u\<rparr>) res0 d = getUser E req res0 d
   \<and> (authorized (fst (verifyMultipleAuth E req res0 [''User'', ''Admin''])) \<longrightarrow>
        getUser E req res0 d =
          (case User_findOne_refreshToken d (cookies_refreshToken req) of
             None \<Rightarrow> (Some \<lparr>status = 400, body = JsonError ''User not found''\<rparr>, d)
           | Some user \<Rightarrow>
               (Some \<lparr>status = 200,
                      body = UserData (username user) (email user) (role user)
                        (locals_refreshedTokenMessage
                           (snd (verifyMultipleAuth E req res0 [''User'', ''Admin''])))\<rparr>, d)))"
  by (simp add: getUser_eq send_def split: option.split)
text \<open>
  With the cookie of \<open>alice\<close> and the path of \<open>carol\<close>, the answer is \<open>alice\<close>, as
  without a username in the path; with a cookie that no user holds, it is 400.
\<close>

theorem getUser_ignores_username_witness:
  "getUser allow (req0\<lparr>cookies_refreshToken := JString ''tokA'', params_username := JString ''carol''\<rparr>)
      res_empty db0
   = (Some \<lparr>status = 200, body = UserData ''alice'' ''a@x.com'' ''Regular'' JUndefined\<rparr>, db0)
   \<and> getUser allow (req0\<lparr>cookies_refreshToken := JString ''tokA''\<rparr>) res_empty db0
   = (Some \<lparr>status = 200, body = UserData ''alice'' ''a@x.com'' ''Regular'' JUndefined\<rparr>, db0)
   \<and> getUser allow (req0\<lparr>cookies_refreshToken := JString ''tokZ'', params_username := JString ''carol''\<rparr>)
      res_empty db0
   = (Some \<lparr>status = 400, body = JsonError ''User not found''\<rparr>, db0)"
  using
    getUser_ignores_username [of allow "JString ''carol''"
      "req0\<lparr>cookies_refreshToken := JString ''tokA''\<rparr>" res_empty db0]
    getUser_ignores_username [of allow "JString ''carol''"
      "req0\<lparr>cookies_refreshToken := JString ''tokZ''\<rparr>" res_empty db0]
  by (simp add: User_findOne_refreshToken_def example_defs)
subsection \<open>C10: the two authorization checks of addToGroup\<close>

text \<open>
  C10, as stated, fails on the code: the check for missing parameters comes before both
  authorization checks. A caller who fails the check of \<open>verifyMultipleAuth\<close> and sends
  no \<open>memberEmails\<close> is answered 400, not 401.
\<close>

theorem addToGroup_missing_before_auth:
  "\<not> authorized (fst (verifyMultipleAuth deny
        (req0\<lparr>params_name := JString ''Family'', path := ''/groups/Family/add''\<rparr>)
        res_empty [''User'', ''Admin'']))
   \<and> addToGroup deny (req0\<lparr>params_name := JString ''Family'', path := ''/groups/Family/add''\<rparr>)
        res_empty db0
      = (Some \<lparr>status = 400,
               body = JsonError ''The request body does not contain all the necessary attributes''\<rparr>,
         db0)"
  by (simp add: addToGroup_def send_def example_defs)
text \<open>
  C10, amended: for every \<open>addToGroup\<close> request that carries both the group name and
  \<open>memberEmails\<close>: a caller who fails the User-or-Admin check is answered 401 with its
  cause; a caller who passes it is answered 401 when the route is \<open>add\<close> and the
  \<open>Group\<close> check fails, or the route is \<open>insert\<close> and the \<open>Admin\<close> check fails; the
  User-or-Admin check runs before the dispatch on the route, so 400 \<open>Path not correct\<close>
  is the answer to any other route only for a caller who passes it, and is never the
  answer to a caller who fails it. Storage is unchanged in all these cases.
\<close>

theorem addToGroup_auth_order:
  "body_memberEmails req \<noteq> None \<Longrightarrow> params_name req \<noteq> JUndefined \<Longrightarrow>
   (\<not> authorized (fst (verifyMultipleAuth E req res0 [''User'', ''Admin''])) \<longrightarrow>
      addToGroup E req res0 d =
        (Some \<lparr>status = 401,
               body = JsonError (cause (fst (verifyMultipleAuth E req res0 [''User'', ''Admin''])))\<rparr>, d))
   \<and> (authorized (fst (verifyMultipleAuth E req res0 [''User'', ''Admin'']))
        \<and> routeIntent req = ''add''
        \<and> \<not> authorized (fst (verifyAuth E req
              (snd (verifyMultipleAuth E req res0 [''User'', ''Admin''])) ''Group'')) \<longrightarrow>
      addToGroup E req res0 d =
        (Some \<lparr>status = 401,
               body = JsonError (cause (fst (verifyAuth E req
                 (snd (verifyMultipleAuth E req res0 [''User'', ''Admin''])) ''Group'')))\<rparr>, d))
   \<and> (authorized (fst (verifyMultipleAuth E req res0 [''User'', ''Admin'']))
        \<and> routeIntent req = ''insert''
        \<and> \<not> authorized (fst (verifyAuth E req
              (snd (verifyMultipleAuth E req res0 [''User'', ''Admin''])) ''Admin'')) \<longrightarrow>
      addToGroup E req res0 d =
        (Some \<lparr>status = 401,
               body = JsonError (cause (fst (verifyAuth E req
                 (snd (verifyMultipleAuth E req res0 [''User'', ''Admin''])) ''Admin'')))\<rparr>, d))
   \<and> (authorized (fst (verifyMultipleAuth E req res0 [''User'', ''Admin'']))
        \<and> routeIntent req \<noteq> ''add'' \<and> routeIntent req \<noteq> ''insert'' \<longrightarrow>
      addToGroup E req res0 d = (Some \<lparr>status = 400, body = JsonError ''Path not correct''\<rparr>, d))
   \<and> (fst (addToGroup E req res0 d) = Some \<lparr>status = 400, body = JsonError ''Path not correct''\<rparr> \<longrightarrow>
      authorized (fst (verifyMultipleAuth E req res0 [''User'', ''Admin''])))"
  by (auto simp: addToGroup_eq send_def split: if_splits)
text \<open>
  A caller failing every check; a caller passing only the User-or-Admin check, on the
  routes \<open>add\<close>, \<open>insert\<close> and on an unknown route.
\<close>

theorem addToGroup_auth_order_witness:
  "addToGroup deny
      (req0\<lparr>params_name := JString ''Family'', body_memberEmails := Some [''a@x.com''],
            path := ''/groups/Family/add''\<rparr>) res_empty db0
     = (Some \<lparr>status = 401, body = JsonError ''Unauthorized''\<rparr>, db0)
   \<and> addToGroup members_only
      (req0\<lparr>params_name := JString ''Family'', body_memberEmails := Some [''a@x.com''],
            path := ''/groups/Family/add''\<rparr>) res_empty db0
     = (Some \<lparr>status = 401, body = JsonError ''Unauthorized''\<rparr>, db0)
   \<and> addToGroup members_only
      (req0\<lparr>params_name := JString ''Family'', body_memberEmails := Some [''a@x.com''],
            path := ''/groups/Family/insert''\<rparr>) res_empty db0
     = (Some \<lparr>status = 401, body = JsonError ''Unauthorized''\<rparr>, db0)
   \<and> addToGroup members_only
      (req0\<lparr>params_name := JString ''Family'', body_memberEmails := Some [''a@x.com''],
            path := ''/groups/Family''\<rparr>) res_empty db0
     = (Some \<lparr>status = 400, body = JsonError ''Path not correct''\<rparr>, db0)
   \<and> authorized (fst (verifyMultipleAuth members_only
      (req0\<lparr>params_name := JString ''Family'', body_memberEmails := Some [''a@x.com''],
            path := ''/groups/Family''\<rparr>) res_empty [''User'', ''Admin'']))"
  using
    addToGroup_auth_order [of
      "req0\<lparr>params_name := JString ''Family'', body_memberEmails := Some [''a@x.com''],
            path := ''/groups/Family/add''\<rparr>" deny res_empty db0]
    addToGroup_auth_order [of
      "req0\<lparr>params_name := JString ''Family'', body_memberEmails := Some [''a@x.com''],
            path := ''/groups/Family/add''\<rparr>" members_only res_empty db0]
    addToGroup_auth_order [of
      "req0\<lparr>params_name := JString ''Family'', body_memberEmails := Some [''a@x.com''],
            path := ''/groups/Family/insert''\<rparr>" members_only res_empty db0]
    addToGroup_auth_order [of
      "req0\<lparr>params_name := JString ''Family'', body_memberEmails := Some [''a@x.com''],
            path := ''/groups/Family''\<rparr>" members_only res_empty db0]
  by (simp add: routeIntent_def example_defs)

subsection \<open>C6: the order of the checks\<close>

text \<open>
  C6, as stated, fails on the code: \<open>createGroup\<close>, \<open>addToGroup\<close> and
  \<open>removeFromGroup\<close> look for missing parameters, and \<open>removeFromGroup\<close> at the route,
  before they authorize. A caller who fails every authorization check is answered 400 by
  \<open>addToGroup\<close> when \<open>memberEmails\<close> is missing, and 400 by \<open>removeFromGroup\<close> on an
  unknown route.
\<close>

theorem validation_before_authorization:
  "\<not> authorized (fst (verifyMultipleAuth deny
        (req0\<lparr>params_name := JString ''Family'', path := ''/groups/Family/insert''\<rparr>)
        res_empty [''User'', ''Admin'']))
   \<and> \<not> authorized (fst (verifyAuth deny
        (req0\<lparr>params_name := JString ''Family'', path := ''/groups/Family/insert''\<rparr>)
        res_empty ''Admin''))
   \<and> addToGroup deny
        (req0\<lparr>params_name := JString ''Family'', path := ''/groups/Family/insert''\<rparr>)
        res_empty db0
      = (Some \<lparr>status = 400,
               body = JsonError ''The request body does not contain all the necessary attributes''\<rparr>,
         db0)
   \<and> removeFromGroup deny
        (req0\<lparr>params_name := JString ''Family'', body_memberEmails := Some [''b@x.com''],
              path := ''/groups/Family/leave''\<rparr>)
        res_empty db0
      = (Some \<lparr>status = 400, body = JsonError ''Path not correct''\<rparr>, db0)"
  by (simp add: addToGroup_def removeFromGroup_def routeIntent_def send_def example_defs)

lemma Group_deleteMany_name_some:
  "0 < fst (Group_deleteMany_name n d) \<Longrightarrow> \<exists>g. Group_findOne_name d (JString n) = Some g"
  using find_None_iff[of "\<lambda>g. name g = n" "groups d"]
  by (auto simp: Group_deleteMany_name_def Group_findOne_name_def filter_empty_conv)
text \<open>
  C6, amended: every orchestrator operation runs its checks in a fixed order, stops at
  the first that fails, and changes the storage only after all its authorization checks
  and its validation have passed. \<open>deleteUser\<close> and \<open>deleteGroup\<close> authorize first: a
  caller who fails the \<open>Admin\<close> check is answered 401 whatever the inputs (and
  \<open>deleteGroup\<close> answers 401 to a caller who fails its later \<open>Group\<close> check).
  \<open>createGroup\<close>, \<open>addToGroup\<close> and \<open>removeFromGroup\<close> first reject a request with
  missing parameters, whoever the caller is; with the parameters present (and, for
  \<open>removeFromGroup\<close>, a known route), a failed authorization check is answered 401 with
  its cause. Whenever one of the five answers 400 or 401, the storage is as it was; and
  when \<open>deleteUser\<close> or \<open>deleteGroup\<close> has changed the storage, the caller passed every
  authorization check of the operation and the input named an existing user or group.
\<close>

theorem checks_precede_mutation:
  "(\<not> authorized (fst (verifyAuth E req res0 ''Admin'')) \<longrightarrow>
      deleteUser E req res0 d
        = (Some \<lparr>status = 401, body = JsonMessage ''Unauthorized: user is not an admin!''\<rparr>, d)
      \<and> deleteGroup E req res0 d
        = (Some \<lparr>status = 401, body = JsonMessage ''Unauthorized: user is not an admin!''\<rparr>, d))
   \<and> (authorized (fst (verifyAuth E req res0 ''Admin'')) \<and> body_name req = JString n \<and> n \<noteq> []
        \<and> \<not> authorized (fst (verifyAuth E req (snd (verifyAuth E req res0 ''Admin'')) ''Group'')) \<longrightarrow>
      deleteGroup E req res0 d
        = (Some \<lparr>status = 401,
                 body = JsonMessage (cause (fst (verifyAuth E req
                          (snd (verifyAuth E req res0 ''Admin'')) ''Group'')))\<rparr>, d))
   \<and> (body_memberEmails req = None \<or> body_name req = JUndefined \<longrightarrow>
      (\<exists>s. createGroup E req res0 d
              = (Some \<lparr>status = s, body = JsonMessage ''Missing parameters''\<rparr>, d)))
   \<and> (body_memberEmails req \<noteq> None \<and> body_name req \<noteq> JUndefined
        \<and> \<not> authorized (fst (verifyAuth E req res0 ''Group'')) \<longrightarrow>
      createGroup E req res0 d
        = (Some \<lparr>status = 401,
                 body = JsonError (cause (fst (verifyAuth E req res0 ''Group'')))\<rparr>, d))
   \<and> (body_memberEmails req = None \<or> params_name req = JUndefined \<longrightarrow>
      (\<exists>s. addToGroup E req res0 d
              = (Some \<lparr>status = s,
                       body = JsonError
                         ''The request body does not contain all the necessary attributes''\<rparr>, d)))
   \<and> (body_memberEmails req \<noteq> None \<and> params_name req \<noteq> JUndefined
        \<and> \<not> authorized (fst (verifyMultipleAuth E req res0 [''User'', ''Admin''])) \<longrightarrow>
      addToGroup E req res0 d
        = (Some \<lparr>status = 401,
                 body = JsonError (cause (fst (verifyMultipleAuth E req res0
                          [''User'', ''Admin''])))\<rparr>, d))
   \<and> (body_memberEmails req = None \<longrightarrow>
      (\<exists>s. removeFromGroup E req res0 d
              = (Some \<lparr>status = s, body = JsonError ''Missing parameters''\<rparr>, d)))
   \<and> (body_memberEmails req \<noteq> None \<and> routeIntent req = ''remove''
        \<and> \<not> authorized (fst (verifyAuth E req res0 ''Group'')) \<longrightarrow>
      removeFromGroup E req res0 d
        = (Some \<lparr>status = 401,
                 body = JsonError (cause (fst (verifyAuth E req res0 ''Group'')))\<rparr>, d))
   \<and> (body_memberEmails req \<noteq> None \<and> routeIntent req = ''pull''
        \<and> \<not> authorized (fst (verifyAuth E req res0 ''Admin'')) \<longrightarrow>
      removeFromGroup E req res0 d
        = (Some \<lparr>status = 401,
                 body = JsonError (cause (fst (verifyAuth E req res0 ''Admin'')))\<rparr>, d))
   \<and> ((\<exists>r. fst (createGroup E req res0 d) = Some r \<and> (status r = 400 \<or> status r = 401)) \<longrightarrow>
      snd (createGroup E req res0 d) = d)
   \<and> ((\<exists>r. fst (addToGroup E req res0 d) = Some r \<and> (status r = 400 \<or> status r = 401)) \<longrightarrow>
      snd (addToGroup E req res0 d) = d)
   \<and> ((\<exists>r. fst (removeFromGroup E req res0 d) = Some r \<and> (status r = 400 \<or> status r = 401)) \<longrightarrow>
      snd (removeFromGroup E req res0 d) = d)
   \<and> ((\<exists>r. fst (deleteUser E req res0 d) = Some r \<and> (status r = 400 \<or> status r = 401)) \<longrightarrow>
      snd (deleteUser E req res0 d) = d)
   \<and> ((\<exists>r. fst (deleteGroup E req res0 d) = Some r \<and> (status r = 400 \<or> status r = 401)) \<longrightarrow>
      snd (deleteGroup E req res0 d) = d)
   \<and> (snd (deleteUser E req res0 d) \<noteq> d \<longrightarrow>
      authorized (fst (verifyAuth E req res0 ''Admin''))
      \<and> (\<exists>e. body_email req = JString e \<and> isEmail E e
               \<and> User_findOne_email d (JString e) \<noteq> None))
   \<and> (snd (deleteGroup E req res0 d) \<noteq> d \<longrightarrow>
      authorized (fst (verifyAuth E req res0 ''Admin''))
      \<and> authorized (fst (verifyAuth E req (snd (verifyAuth E req res0 ''Admin'')) ''Group''))
      \<and> (\<exists>m. body_name req = JString m \<and> m \<noteq> []
               \<and> Group_findOne_name d (JString m) \<noteq> None))"
proof (intro conjI)
  show "snd (deleteGroup E req res0 d) \<noteq> d \<longrightarrow>
      authorized (fst (verifyAuth E req res0 ''Admin''))
      \<and> authorized (fst (verifyAuth E req (snd (verifyAuth E req res0 ''Admin'')) ''Group''))
      \<and> (\<exists>m. body_name req = JString m \<and> m \<noteq> []
               \<and> Group_findOne_name d (JString m) \<noteq> None)"
    by (cases "body_name req")
       (auto simp: deleteGroup_eq send_def dest: Group_deleteMany_name_some split: if_splits)
  show "snd (deleteUser E req res0 d) \<noteq> d \<longrightarrow>
      authorized (fst (verifyAuth E req res0 ''Admin''))
      \<and> (\<exists>e. body_email req = JString e \<and> isEmail E e
               \<and> User_findOne_email d (JString e) \<noteq> None)"
    by (cases "body_email req") (auto simp: deleteUser_eq send_def split: if_splits)
  show "(\<exists>r. fst (deleteGroup E req res0 d) = Some r \<and> (status r = 400 \<or> status r = 401)) \<longrightarrow>
      snd (deleteGroup E req res0 d) = d"
    by (cases "body_name req") (auto simp: deleteGroup_eq send_def split: if_splits)
  show "(\<exists>r. fst (deleteUser E req res0 d) = Some r \<and> (status r = 400 \<or> status r = 401)) \<longrightarrow>
      snd (deleteUser E req res0 d) = d"
    by (cases "body_email req") (auto simp: deleteUser_eq send_def split: if_splits)
  show "(\<exists>r. fst (createGroup E req res0 d) = Some r \<and> (status r = 400 \<or> status r = 401)) \<longrightarrow>
      snd (createGroup E req res0 d) = d"
    using createGroup_never_succeeds[of E req res0 d] by simp
  show "(\<exists>r. fst (addToGroup E req res0 d) = Some r \<and> (status r = 400 \<or> status r = 401)) \<longrightarrow>
      snd (addToGroup E req res0 d) = d"
    using addToGroup_never_succeeds[of E req res0 d] by simp
  show "(\<exists>r. fst (removeFromGroup E req res0 d) = Some r \<and> (status r = 400 \<or> status r = 401)) \<longrightarrow>
      snd (removeFromGroup E req res0 d) = d"
    using removeFromGroup_never_succeeds[of E req res0 d] by simp
qed (auto simp: deleteUser_eq deleteGroup_eq createGroup_eq addToGroup_eq removeFromGroup_eq send_def
      split: option.split jsval.split)
text \<open>
  On the example store: a caller failing every check, with all the parameters and with
  none; a caller passing the \<open>Admin\<close> check alone; and, for a caller passing every check,
  a \<open>deleteUser\<close> whose transaction filter matches and a \<open>deleteGroup\<close> of \<open>Family\<close>,
  both of which change the storage.
\<close>

theorem checks_precede_mutation_witness:
  "deleteUser deny req_family res_empty db0
     = (Some \<lparr>status = 401, body = JsonMessage ''Unauthorized: user is not an admin!''\<rparr>, db0)
   \<and> deleteGroup deny req_family res_empty db0
     = (Some \<lparr>status = 401, body = JsonMessage ''Unauthorized: user is not an admin!''\<rparr>, db0)
   \<and> deleteGroup admin_only req_family res_empty db0
     = (Some \<lparr>status = 401, body = JsonMessage ''Unauthorized''\<rparr>, db0)
   \<and> createGroup deny req_family res_empty db0
     = (Some \<lparr>status = 401, body = JsonError ''Unauthorized''\<rparr>, db0)
   \<and> addToGroup deny req_family res_empty db0
     = (Some \<lparr>status = 401, body = JsonError ''Unauthorized''\<rparr>, db0)
   \<and> removeFromGroup deny req_family res_empty db0
     = (Some \<lparr>status = 401, body = JsonError ''Unauthorized''\<rparr>, db0)
   \<and> removeFromGroup deny (req_family\<lparr>path := ''/groups/Family/pull''\<rparr>) res_empty db0
     = (Some \<lparr>status = 401, body = JsonError ''Unauthorized''\<rparr>, db0)
   \<and> (\<exists>s. createGroup deny req0 res_empty db0
            = (Some \<lparr>status = s, body = JsonMessage ''Missing parameters''\<rparr>, db0))
   \<and> (\<exists>s. addToGroup deny req0 res_empty db0
            = (Some \<lparr>status = s,
                     body = JsonError
                       ''The request body does not contain all the necessary attributes''\<rparr>, db0))
   \<and> (\<exists>s. removeFromGroup deny req0 res_empty db0
            = (Some \<lparr>status = s, body = JsonError ''Missing parameters''\<rparr>, db0))
   \<and> snd (deleteUser (allow\<lparr>tx_matches_email := (\<lambda>e t. True)\<rparr>) req_family res_empty db0) \<noteq> db0
   \<and> authorized (fst (verifyAuth (allow\<lparr>tx_matches_email := (\<lambda>e t. True)\<rparr>) req_family
        res_empty ''Admin''))
   \<and> snd (deleteGroup allow req_family res_empty db0) \<noteq> db0
   \<and> authorized (fst (verifyAuth allow req_family res_empty ''Group''))"
  using
    checks_precede_mutation [of deny req_family res_empty db0 "''Family''"]
    checks_precede_mutation [of admin_only req_family res_empty db0 "''Family''"]
    checks_precede_mutation [of deny "req_family\<lparr>path := ''/groups/Family/pull''\<rparr>" res_empty
      db0 "''Family''"]
    checks_precede_mutation [of deny req0 res_empty db0 "''Family''"]
    checks_precede_mutation [of "allow\<lparr>tx_matches_email := (\<lambda>e t. True)\<rparr>" req_family res_empty
      db0 "''Family''"]
    checks_precede_mutation [of allow req_family res_empty db0 "''Family''"]
  by (simp add: routeIntent_def example_defs
      deleteUser_eq deleteGroup_eq send_def User_findOne_email_def
      transactions_deleteMany_email_def Group_deleteMany_name_def)
subsection \<open>C4: deleteUser\<close>

text \<open>
  No \<open>deleteUser\<close> call deletes a user, removes a member or answers 200: for an existing
  user, line 372 throws.
\<close>

lemma deleteUser_never_succeeds:
  "users (snd (deleteUser E req res0 d)) = users d
   \<and> groups (snd (deleteUser E req res0 d)) = groups d
   \<and> (\<exists>r. fst (deleteUser E req res0 d) = Some r \<and> status r \<noteq> 200)"
  by (simp add: deleteUser_eq send_def transactions_deleteMany_email_def split: jsval.split)
text \<open>
  C4 on the example store, for an authorized admin: \<open>b@x.com\<close> is the email of \<open>bob\<close>,
  who has one transaction and is a member of \<open>Family\<close>. The answer is 500 with the
  TypeError's message, not \<open>deletedTransactionsNumber\<close> 1 and \<open>isRemovedFromGroup\<close>
  true, and the storage is as it was: \<open>bob\<close> is still a user and a member.
\<close>

theorem deleteUser_throws:
  "User_findOne_email db0 (JString ''b@x.com'') = Some bob
   \<and> length (transactions_find_username db0 (username bob)) = 1
   \<and> list_ex (has_member ''b@x.com'') (groups db0)
   \<and> deleteUser allow (req0\<lparr>body_email := JString ''b@x.com''\<rparr>) res_empty db0
      = (Some \<lparr>status = 500, body = JsonText ''userGroup.forEach is not a function''\<rparr>, db0)"
  by (simp add: deleteUser_def send_def User_findOne_email_def transactions_find_username_def
      transactions_deleteMany_email_def Group_find_not_awaited_def forEach_target_def
      has_member_def example_defs)
subsection \<open>C5: the failures of createGroup\<close>

text \<open>
  C5 on the example store, for an authorized caller: naming the existing group \<open>Family\<close>
  is answered 401, not 400. \<open>createGroup\<close> never calls \<open>isEmail\<close>: a list holding only
  a string that is no email is answered 401 as having no valid email, and one that also
  holds a valid email is answered 500. No group is created in any of the three.
\<close>

theorem createGroup_answers_401:
  "createGroup allow
      (req0\<lparr>body_name := JString ''Family'', body_memberEmails := Some [''a@x.com'']\<rparr>)
      res_empty db0
     = (Some \<lparr>status = 401, body = JsonError ''A group with the same name already exists''\<rparr>, db0)
   \<and> \<not> isEmail allow ''not-an-email''
   \<and> createGroup allow
      (req0\<lparr>body_name := JString ''Friends'', body_memberEmails := Some [''not-an-email'']\<rparr>)
      res_empty db0
     = (Some \<lparr>status = 401, body = JsonError ''All the emails are invalid''\<rparr>, db0)
   \<and> createGroup allow
      (req0\<lparr>body_name := JString ''Friends'',
            body_memberEmails := Some [''a@x.com'', ''not-an-email'']\<rparr>)
      res_empty db0
     = (Some \<lparr>status = 500,
              body = JsonError ''Cannot read properties of undefined (reading 'email')''\<rparr>, db0)"
  by (simp add: createGroup_def send_def resolveMember_def get_email_def classify_eval example_defs)

end
